theory Spec2Isabelle
  imports Complex_Main "HOL-Library.Multiset" "HOL-Library.Product_Lexorder"
begin

section \<open>Python values used by the FTP client\<close>

text \<open>
  Python strings are modelled as \<open>string\<close>: lists of characters with code points
  0..255.  On that range \<open>str.isspace\<close> holds for the code points 9-13, 28-32, 133 and
  160, and the decimal digits (\<open>\d\<close> of the \<open>re\<close> module, the digits \<open>int\<close> accepts)
  are \<open>0\<close>..\<open>9\<close>.  Python integers are unbounded: \<open>int\<close>.
\<close>

datatype exn =
    ValueError
  | IndexError
  | TypeError
  | OverflowError
  | UnicodeDecodeError
  | FileNotFoundError
  | OSError
  | NotImplementedError
  | ConnectionError string
  | TimeoutError string
  | CommandError string
  | AuthenticationError string
  | FileTransferError string

definition py_isspace :: "char \<Rightarrow> bool" where
  "py_isspace c = (let n = (of_char c :: nat) in
     (9 \<le> n \<and> n \<le> 13) \<or> (28 \<le> n \<and> n \<le> 32) \<or> n = 133 \<or> n = 160)"

definition py_isdigit :: "char \<Rightarrow> bool" where
  "py_isdigit c = (let n = (of_char c :: nat) in 48 \<le> n \<and> n \<le> 57)"

definition digit_val :: "char \<Rightarrow> int" where
  "digit_val c = int (of_char c) - 48"

text \<open>\<open>s.strip()\<close>: whitespace removed at both ends.\<close>

definition py_strip :: "string \<Rightarrow> string" where
  "py_strip s = rev (dropWhile py_isspace (rev (dropWhile py_isspace s)))"

text \<open>\<open>s.startswith(p)\<close>.\<close>

definition startswith :: "string \<Rightarrow> string \<Rightarrow> bool" where
  "startswith s p = (take (length p) s = p)"

text \<open>
  \<open>int(s)\<close> for a string, base 10: surrounding whitespace is skipped, one sign is
  allowed, then decimal digits, where single underscores may stand between two digits.
  Anything else raises \<open>ValueError\<close>.
\<close>

fun int_digits :: "int \<Rightarrow> string \<Rightarrow> int option" where
  "int_digits acc [] = Some acc"
| "int_digits acc (c # cs) =
     (if py_isdigit c then int_digits (acc * 10 + digit_val c) cs
      else if c = CHR ''_'' then
        (case cs of
           [] \<Rightarrow> None
         | d # ds \<Rightarrow> if py_isdigit d then int_digits (acc * 10 + digit_val d) ds else None)
      else None)"

definition int_unsigned :: "string \<Rightarrow> int option" where
  "int_unsigned s =
     (case s of [] \<Rightarrow> None
      | c # cs \<Rightarrow> if py_isdigit c then int_digits (digit_val c) cs else None)"

definition int_literal :: "string \<Rightarrow> int option" where
  "int_literal s =
     (case py_strip s of
        [] \<Rightarrow> None
      | c # cs \<Rightarrow>
          if c = CHR ''+'' then int_unsigned cs
          else if c = CHR ''-'' then map_option uminus (int_unsigned cs)
          else int_unsigned (c # cs))"

definition py_int :: "string \<Rightarrow> exn + int" where
  "py_int s = (case int_literal s of None \<Rightarrow> Inl ValueError | Some n \<Rightarrow> Inr n)"

section \<open>Protocol codec (common/protocol.py)\<close>

subsection \<open>parse\_response\<close>

text \<open>
  \<^verbatim>\<open>
  try:
      code = int(response[:3])
      message = response[3:].strip()
      return code, message
  except (ValueError, IndexError):
      logger.error(...)
      return None, response
  \<close>
  The body of the \<open>try\<close> is \<open>parse_response_body\<close>; the handler catches the two listed
  exception classes and lets every other one through.
\<close>

definition parse_response_body :: "string \<Rightarrow> exn + (int option \<times> string)" where
  "parse_response_body response =
     (case py_int (take 3 response) of
        Inl e \<Rightarrow> Inl e
      | Inr code \<Rightarrow> Inr (Some code, py_strip (drop 3 response)))"

definition parse_response :: "string \<Rightarrow> exn + (int option \<times> string)" where
  "parse_response response =
     (case parse_response_body response of
        Inr r \<Rightarrow> Inr r
      | Inl e \<Rightarrow> if e = ValueError \<or> e = IndexError then Inr (None, response) else Inl e)"


subsection \<open>Strings of numbers\<close>

text \<open>\<open>str(n)\<close> for an integer: the decimal digits, after a minus sign when negative.\<close>

definition digit_char :: "nat \<Rightarrow> char" where
  "digit_char k = char_of (48 + k)"

function digits_of :: "nat \<Rightarrow> string" where
  "digits_of n = (if n < 10 then [digit_char n] else digits_of (n div 10) @ [digit_char (n mod 10)])"
  by pat_completeness auto
termination
  by (relation "measure (\<lambda>n. n)") auto

definition py_str :: "int \<Rightarrow> string" where
  "py_str i = (if i < 0 then CHR ''-'' # digits_of (nat (- i)) else digits_of (nat i))"

text \<open>\<open>s.split(sep)\<close> and \<open>sep.join(parts)\<close> for a one-character separator.\<close>

fun py_split :: "char \<Rightarrow> string \<Rightarrow> string list" where
  "py_split sep [] = [[]]"
| "py_split sep (c # cs) =
     (if c = sep then [] # py_split sep cs
      else (case py_split sep cs of
              [] \<Rightarrow> [[c]]
            | x # xs \<Rightarrow> (c # x) # xs))"

fun py_join :: "string \<Rightarrow> string list \<Rightarrow> string" where
  "py_join sep [] = []"
| "py_join sep [x] = x"
| "py_join sep (x # y # ys) = x @ sep @ py_join sep (y # ys)"



subsection \<open>build\_port\_command\<close>

text \<open>
  \<^verbatim>\<open>
  ip_parts = ip.split('.')
  port_hi = port // 256
  port_lo = port % 256
  return f"{','.join(ip_parts)},{port_hi},{port_lo}"
  \<close>
\<close>

definition build_port_command :: "string \<Rightarrow> int \<Rightarrow> string" where
  "build_port_command ip port =
     (let ip_parts = py_split (CHR ''.'') ip;
          port_hi = port div 256;
          port_lo = port mod 256
      in py_join '','' ip_parts @ '','' @ py_str port_hi @ '','' @ py_str port_lo)"

subsection \<open>parse\_pasv\_response\<close>

text \<open>
  \<open>re.search(r'(\d+),(\d+),(\d+),(\d+),(\d+),(\d+)', response)\<close>: the leftmost
  position where six runs of digits separated by single commas start.  Each \<open>\d+\<close> is
  greedy and is followed by a comma (or by the end of the pattern), so at a given
  position a match, when there is one, takes each run of digits whole: a shorter run
  would be followed by a digit, not by the comma.  \<open>match_here k s\<close> matches \<open>k\<close> groups
  at the head of \<open>s\<close> and returns them.
\<close>

fun match_here :: "nat \<Rightarrow> string \<Rightarrow> string list option" where
  "match_here 0 s = Some []"
| "match_here (Suc k) s =
     (let d = takeWhile py_isdigit s; r = dropWhile py_isdigit s
      in if d = [] then None
         else if k = 0 then Some [d]
         else (case r of
                 [] \<Rightarrow> None
               | c # r' \<Rightarrow>
                   if c = CHR '','' then map_option ((#) d) (match_here k r') else None))"

fun re_search :: "string \<Rightarrow> string list option" where
  "re_search [] = match_here 6 []"
| "re_search (c # cs) =
     (case match_here 6 (c # cs) of
        Some groups \<Rightarrow> Some groups
      | None \<Rightarrow> re_search cs)"

text \<open>
  \<^verbatim>\<open>
  match = re.search(pattern, response)
  if not match:
      raise ValueError(...)
  numbers = [int(n) for n in match.groups()]
  ip = '.'.join(str(n) for n in numbers[:4])
  port = (numbers[4] << 8) + numbers[5]
  return ip, port
  \<close>
\<close>

fun ints_of :: "string list \<Rightarrow> exn + int list" where
  "ints_of [] = Inr []"
| "ints_of (g # gs) =
     (case py_int g of
        Inl e \<Rightarrow> Inl e
      | Inr n \<Rightarrow> (case ints_of gs of Inl e \<Rightarrow> Inl e | Inr ns \<Rightarrow> Inr (n # ns)))"

definition parse_pasv_response :: "string \<Rightarrow> exn + (string \<times> int)" where
  "parse_pasv_response response =
     (case re_search response of
        None \<Rightarrow> Inl ValueError
      | Some groups \<Rightarrow>
          (case ints_of groups of
             Inl e \<Rightarrow> Inl e
           | Inr numbers \<Rightarrow>
               Inr (py_join ''.'' (map py_str (take 4 numbers)),
                    (numbers ! 4) * 256 + numbers ! 5)))"


section \<open>FTP session (client/ftp\_client.py, class FTPClient)\<close>

datatype TransferMode = ASCII | BINARY

datatype ConnectionMode = ACTIVE | PASSIVE

text \<open>
  What the control socket delivers, one entry per iteration of the read loop:
  \<^item> \<open>Data s\<close>: \<open>recv(1024).decode('utf-8')\<close> returned \<open>s\<close> (the empty string when the
    peer closed the connection);
  \<^item> \<open>Undecodable\<close>: the received bytes are not UTF-8, \<open>decode\<close> raises;
  \<^item> \<open>SockTimeout\<close>: \<open>recv\<close> raised \<open>socket.timeout\<close>;
  \<^item> \<open>SockError m\<close>: \<open>recv\<close> raised \<open>socket.error\<close> with text \<open>m\<close>;
  \<^item> \<open>Late\<close>: the clock check at the head of the loop found
    \<open>time.time() - start_time > self.timeout\<close>.
  The socket is created with a timeout, so a \<open>recv\<close> with nothing left to deliver is
  \<open>socket.timeout\<close>: an exhausted inbox behaves as \<open>SockTimeout\<close>.
\<close>

datatype recv_ev = Data string | Undecodable | SockTimeout | SockError string | Late

text \<open>
  The logging calls of the session, one constructor per call site, carrying the
  interpolated argument (the fixed text of each message is not modelled):
  \<^item> \<open>LogSendCommand\<close>: \<open>logger.debug(f"... {log_command}")\<close> in \<open>_send_command\<close>;
  \<^item> \<open>LogSendFailed\<close>: \<open>logger.error(error_msg)\<close> in \<open>_send_command\<close>;
  \<^item> \<open>LogServerError\<close>: \<open>logger.error(f"... {error_msg}")\<close> in \<open>_read_response\<close>;
  \<^item> \<open>LogResponse\<close>: \<open>logger.debug(f"... {response.strip()}")\<close> in \<open>_read_response\<close>;
  \<^item> \<open>LogParseFailed\<close>: \<open>logger.error(f"... {response}")\<close> in \<open>parse_response\<close>.
\<close>

datatype log_record =
    LogSendCommand string
  | LogSendFailed string
  | LogServerError string
  | LogResponse string
  | LogParseFailed string
  | LogInfo string

text \<open>
  The session object together with the part of the world it talks to: \<open>inbox\<close> is
  what the control socket will deliver, \<open>send_faults\<close> the outcomes of the coming
  \<open>sendall\<close> calls (\<open>None\<close>: sent; \<open>Some m\<close>: \<open>socket.error\<close> with text \<open>m\<close>; an
  exhausted list: sent), \<open>wire\<close> the byte strings written to the control socket,
  \<open>log_records\<close> the records handed to the logger, \<open>data_channels\<close> the number of data
  connections opened so far.
\<close>

record session =
  has_cmd_socket :: bool
  connected :: bool
  logged_in :: bool
  transfer_mode :: TransferMode
  connection_mode :: ConnectionMode
  last_response :: "string option"
  last_response_code :: "int option"
  inbox :: "recv_ev list"
  send_faults :: "string option list"
  wire :: "nat list list"
  log_records :: "log_record list"
  data_channels :: nat

text \<open>\<open>str.encode('utf-8')\<close> on code points below 256: one byte below 128, two above.\<close>

definition utf8_char :: "char \<Rightarrow> nat list" where
  "utf8_char c = (let n = (of_char c :: nat) in
     if n < 128 then [n] else [192 + n div 64, 128 + n mod 64])"

definition utf8_encode :: "string \<Rightarrow> nat list" where
  "utf8_encode s = concat (map utf8_char s)"

subsection \<open>\_send\_command\<close>

text \<open>
  \<^verbatim>\<open>
  if not self.cmd_socket: raise ConnectionError(...)
  if not self.connected:  raise ConnectionError(...)
  log_command = command
  if command.startswith("PASS "):
      log_command = "PASS ********"
  cmd_bytes = (command + "\r\n").encode('utf-8')
  logger.debug(f"...: {log_command}")
  try:
      return self.cmd_socket.sendall(cmd_bytes)
  except (socket.error, BrokenPipeError) as e:
      error_msg = f"...: {str(e)}"
      logger.error(error_msg)
      self.connected = False
      raise ConnectionError(error_msg)
  \<close>
\<close>

definition crlf :: string where
  "crlf = [CHR 0x0D, CHR 0x0A]"

definition send_command :: "session \<Rightarrow> string \<Rightarrow> (exn + unit) \<times> session" where
  "send_command s command =
     (if \<not> has_cmd_socket s then (Inl (ConnectionError ''not connected''), s)
      else if \<not> connected s then (Inl (ConnectionError ''connection closed''), s)
      else
        let log_command = (if startswith command ''PASS '' then ''PASS ********'' else command);
            cmd_bytes = utf8_encode (command @ crlf);
            s1 = s\<lparr>log_records := log_records s @ [LogSendCommand log_command]\<rparr>
        in (case send_faults s1 of
              Some e # faults \<Rightarrow>
                (Inl (ConnectionError e),
                 s1\<lparr>send_faults := faults, log_records := log_records s1 @ [LogSendFailed e], connected := False\<rparr>)
            | None # faults \<Rightarrow> (Inr (), s1\<lparr>send_faults := faults, wire := wire s1 @ [cmd_bytes]\<rparr>)
            | [] \<Rightarrow> (Inr (), s1\<lparr>wire := wire s1 @ [cmd_bytes]\<rparr>)))"

subsection \<open>\_read\_response\<close>

text \<open>
  \<^verbatim>\<open>
  response = ""
  start_time = time.time()
  while True:
      try:
          if (time.time() - start_time) > self.timeout:
              raise TimeoutError(...)
          line = self.cmd_socket.recv(1024).decode('utf-8')
          if not line:
              self.connected = False
              raise ConnectionError(...)
          response += line
          if line.startswith('5') and line[3:4] == ' ':
              error_msg = line.strip()
              logger.error(...)
              raise CommandError(error_msg)
          if len(line) > 3 and line[3:4] == ' ':
              break
      except socket.timeout:
          raise TimeoutError(...)
      except (socket.error, ConnectionError) as e:
          self.connected = False
          raise ConnectionError(...)
  \<close>
  \<open>TimeoutError\<close> and \<open>ConnectionError\<close> are the classes of common/exceptions.py, and
  \<open>TimeoutError\<close> is a subclass of \<open>ConnectionError\<close>: the timeout raised by the clock
  check and the \<open>ConnectionError\<close> raised on an empty read are both caught by the last
  handler and raised again as \<open>ConnectionError\<close>, with \<open>connected\<close> cleared.
  \<open>CommandError\<close> and \<open>UnicodeDecodeError\<close> pass through both handlers.

  The loop's outcome: the reply and the rest of the inbox, or the exception with the
  new value of \<open>connected\<close> (\<open>None\<close>: unchanged), the records logged and the rest of the
  inbox.
\<close>

datatype read_outcome =
    ReadOk string "recv_ev list"
  | ReadRaise exn "bool option" "log_record list" "recv_ev list"

text \<open>\<open>line[3:4] == ' '\<close>\<close>

definition fourth_is_space :: "string \<Rightarrow> bool" where
  "fourth_is_space line = (take 1 (drop 3 line) = '' '')"

fun read_loop :: "string \<Rightarrow> recv_ev list \<Rightarrow> read_outcome" where
  "read_loop response [] = ReadRaise (TimeoutError ''read timed out'') None [] []"
| "read_loop response (Late # evs) =
     ReadRaise (ConnectionError ''read timed out'') (Some False) [] evs"
| "read_loop response (SockTimeout # evs) =
     ReadRaise (TimeoutError ''read timed out'') None [] evs"
| "read_loop response (SockError m # evs) =
     ReadRaise (ConnectionError m) (Some False) [] evs"
| "read_loop response (Undecodable # evs) = ReadRaise UnicodeDecodeError None [] evs"
| "read_loop response (Data line # evs) =
     (if line = [] then ReadRaise (ConnectionError ''connection closed'') (Some False) [] evs
      else if startswith line ''5'' \<and> fourth_is_space line
        then ReadRaise (CommandError (py_strip line)) None [LogServerError (py_strip line)] evs
      else if length line > 3 \<and> fourth_is_space line then ReadOk (response @ line) evs
      else read_loop (response @ line) evs)"

text \<open>
  After the loop:
  \<^verbatim>\<open>
  logger.debug(f"...: {response.strip()}")
  self.last_response = response.strip()
  code, _ = self.parse_response(response)
  self.last_response_code = code
  return response
  \<close>
  \<open>parse_response\<close> logs an error when the code does not parse.
\<close>

definition read_response :: "session \<Rightarrow> (exn + string) \<times> session" where
  "read_response s =
     (if \<not> has_cmd_socket s then (Inl (ConnectionError ''not connected''), s)
      else if \<not> connected s then (Inl (ConnectionError ''connection closed''), s)
      else
        (case read_loop [] (inbox s) of
           ReadRaise e c logged evs \<Rightarrow>
             (Inl e, s\<lparr>inbox := evs, log_records := log_records s @ logged,
                       connected := (case c of None \<Rightarrow> connected s | Some b \<Rightarrow> b)\<rparr>)
         | ReadOk response evs \<Rightarrow>
             (case parse_response response of
                Inl e \<Rightarrow> (Inl e, s\<lparr>inbox := evs, log_records := log_records s @ [LogResponse (py_strip response)],
                                    last_response := Some (py_strip response)\<rparr>)
              | Inr (code, _) \<Rightarrow>
                  (Inr response,
                   s\<lparr>inbox := evs,
                     log_records := log_records s @ [LogResponse (py_strip response)] @
                            (case code of None \<Rightarrow> [LogParseFailed response] | Some _ \<Rightarrow> []),
                     last_response := Some (py_strip response),
                     last_response_code := code\<rparr>))))"

subsection \<open>Transfer mode and remote size\<close>

fun mode_value :: "TransferMode \<Rightarrow> string" where
  "mode_value ASCII = ''A''"
| "mode_value BINARY = ''I''"

text \<open>
  \<^verbatim>\<open>
  if self.transfer_mode == mode:
      return
  self._send_command(f"TYPE {mode.value}")
  response = self._read_response()
  if self.last_response_code != self.COMMAND_OK:
      raise CommandError(...)
  self.transfer_mode = mode
  \<close>
  (The test that \<open>mode\<close> is one of the two members of the enumeration holds by typing.)
\<close>

definition set_transfer_mode :: "session \<Rightarrow> TransferMode \<Rightarrow> (exn + unit) \<times> session" where
  "set_transfer_mode s mode =
     (if transfer_mode s = mode then (Inr (), s)
      else (case send_command s (''TYPE '' @ mode_value mode) of
              (Inl e, s1) \<Rightarrow> (Inl e, s1)
            | (Inr _, s1) \<Rightarrow>
                (case read_response s1 of
                   (Inl e, s2) \<Rightarrow> (Inl e, s2)
                 | (Inr response, s2) \<Rightarrow>
                     if last_response_code s2 \<noteq> Some 200 then (Inl (CommandError response), s2)
                     else (Inr (), s2\<lparr>transfer_mode := mode\<rparr>))))"

text \<open>\<open>s.split()\<close>: the maximal runs of characters that are not whitespace.\<close>

fun ws_tokens :: "string \<Rightarrow> string \<Rightarrow> string list" where
  "ws_tokens cur [] = (if cur = [] then [] else [cur])"
| "ws_tokens cur (c # cs) =
     (if py_isspace c then (if cur = [] then ws_tokens [] cs else cur # ws_tokens [] cs)
      else ws_tokens (cur @ [c]) cs)"

definition py_split_ws :: "string \<Rightarrow> string list" where
  "py_split_ws s = ws_tokens [] s"

text \<open>
  \<^verbatim>\<open>
  self._send_command(f"SIZE {remote_path}")
  response = self._read_response()
  if self.last_response_code // 100 != self.POSITIVE_COMPLETION:
      raise CommandError(...)
  try:
      size = int(response.split()[1])
      return size
  except (IndexError, ValueError):
      raise CommandError(...)
  \<close>
  When the reply's code did not parse, \<open>last_response_code\<close> is \<open>None\<close> and the floor
  division raises \<open>TypeError\<close>.
\<close>

definition size_cmd :: "session \<Rightarrow> string \<Rightarrow> (exn + int) \<times> session" where
  "size_cmd s remote_path =
     (case send_command s (''SIZE '' @ remote_path) of
        (Inl e, s1) \<Rightarrow> (Inl e, s1)
      | (Inr _, s1) \<Rightarrow>
          (case read_response s1 of
             (Inl e, s2) \<Rightarrow> (Inl e, s2)
           | (Inr response, s2) \<Rightarrow>
               (case last_response_code s2 of
                  None \<Rightarrow> (Inl TypeError, s2)
                | Some code \<Rightarrow>
                    if code div 100 \<noteq> 2 then (Inl (CommandError response), s2)
                    else (case py_split_ws response of
                            _ # tok # _ \<Rightarrow>
                              (case py_int tok of
                                 Inl _ \<Rightarrow> (Inl (CommandError response), s2)
                               | Inr n \<Rightarrow> (Inr n, s2))
                          | _ \<Rightarrow> (Inl (CommandError response), s2)))))"

subsection \<open>Data connection\<close>

text \<open>
  What the transfer methods read from the local machine: the result of
  \<open>is_binary_file\<close> on the path (common/utils.py: a test on the file name's extension),
  whether the local directory and the local file exist, whether \<open>os.makedirs\<close> fails,
  the local file's size, the address and port of the listening socket in active mode,
  and whether connecting the data socket fails (with the error's text).
\<close>

record local_env =
  is_binary_file :: bool
  dir_exists :: bool
  makedirs_fails :: bool
  file_exists :: bool
  file_size :: int
  local_ip :: string
  local_port :: int
  data_connect_error :: "string option"

text \<open>
  \<open>_create_passive_connection\<close>: PASV, the reply must be 227, the address is parsed
  from it and the data socket connects.  \<open>_create_active_connection\<close>: a listening
  socket is opened, PORT is sent with the argument built by \<open>build_port_command\<close>, the
  reply must be 200.  \<open>_create_data_connection\<close> turns every exception of either into
  \<open>ConnectionError\<close>.  \<open>data_channels\<close> counts the data sockets opened.
\<close>

definition create_passive_connection :: "local_env \<Rightarrow> session \<Rightarrow> (exn + string \<times> int) \<times> session" where
  "create_passive_connection env s =
     (case send_command s ''PASV'' of
        (Inl e, s1) \<Rightarrow> (Inl e, s1)
      | (Inr _, s1) \<Rightarrow>
          (case read_response s1 of
             (Inl e, s2) \<Rightarrow> (Inl e, s2)
           | (Inr response, s2) \<Rightarrow>
               if last_response_code s2 \<noteq> Some 227 then (Inl (ConnectionError response), s2)
               else (case parse_pasv_response response of
                       Inl e \<Rightarrow> (Inl e, s2)
                     | Inr (ip, port) \<Rightarrow>
                         (case data_connect_error env of
                            Some m \<Rightarrow> (Inl (ConnectionError m), s2\<lparr>data_channels := data_channels s2 + 1\<rparr>)
                          | None \<Rightarrow> (Inr (ip, port), s2\<lparr>data_channels := data_channels s2 + 1\<rparr>)))))"

definition create_active_connection :: "local_env \<Rightarrow> session \<Rightarrow> (exn + string \<times> int) \<times> session" where
  "create_active_connection env s =
     (let s0 = s\<lparr>data_channels := data_channels s + 1\<rparr>;
          port_arg = build_port_command (local_ip env) (local_port env)
      in case send_command s0 (''PORT '' @ port_arg) of
           (Inl e, s1) \<Rightarrow> (Inl e, s1)
         | (Inr _, s1) \<Rightarrow>
             (case read_response s1 of
                (Inl e, s2) \<Rightarrow> (Inl e, s2)
              | (Inr response, s2) \<Rightarrow>
                  if last_response_code s2 \<noteq> Some 200 then (Inl (ConnectionError response), s2)
                  else (Inr (local_ip env, local_port env), s2)))"

definition create_data_connection :: "local_env \<Rightarrow> session \<Rightarrow> (exn + string \<times> int) \<times> session" where
  "create_data_connection env s =
     (case (if connection_mode s = PASSIVE then create_passive_connection env s
            else create_active_connection env s) of
        (Inl e, s1) \<Rightarrow> (Inl (ConnectionError ''data connection failed''), s1)
      | (Inr sock, s1) \<Rightarrow> (Inr sock, s1))"

subsection \<open>download and upload\<close>

text \<open>
  The part of \<open>download\<close> up to the data connection:
  \<^verbatim>\<open>
  if not self.logged_in:
      raise AuthenticationError(...)
  if mode is None:
      mode = TransferMode.BINARY if self.is_binary_file(remote_path) else TransferMode.ASCII
  self.set_transfer_mode(mode)
  local_path = os.path.abspath(local_path)
  local_dir = os.path.dirname(local_path)
  if not os.path.exists(local_dir):
      os.makedirs(local_dir, exist_ok=True)
  try:
      remote_size = self.size(remote_path)
  except CommandError:
      remote_size = 0
  local_size = 0
  if resume and os.path.exists(local_path):
      local_size = os.path.getsize(local_path)
      if local_size >= remote_size:
          return True, remote_size, 0
  data_sock = self._create_data_connection()
  try:
      ...  (REST, RETR, the receive loop, the final reply)
  except Exception as e:
      ...
      raise FileTransferError(...)
  \<close>
  The \<open>try\<close> block after the data connection is the parameter \<open>transfer\<close>: it is
  given the data socket's address, the two sizes and the session.  The result is the
  triple (success, size, elapsed seconds).
\<close>

type_synonym transfer_result = "bool \<times> int \<times> rat"

type_synonym transfer_body =
  "string \<times> int \<Rightarrow> int \<Rightarrow> int \<Rightarrow> session \<Rightarrow> (exn + transfer_result) \<times> session"

fun is_command_error :: "exn \<Rightarrow> bool" where
  "is_command_error (CommandError _) = True"
| "is_command_error _ = False"

text \<open>
  \<open>mode = BINARY if self.is_binary_file(path) else ASCII\<close> when the caller passes no
  mode.
\<close>

definition chosen_mode :: "local_env \<Rightarrow> TransferMode option \<Rightarrow> TransferMode" where
  "chosen_mode env mode =
     (case mode of
        None \<Rightarrow> if is_binary_file env then BINARY else ASCII
      | Some m \<Rightarrow> m)"

text \<open>From \<open>_create_data_connection\<close> to the end of the method.\<close>

definition open_and_transfer ::
  "local_env \<Rightarrow> transfer_body \<Rightarrow> int \<Rightarrow> int \<Rightarrow> session \<Rightarrow> (exn + transfer_result) \<times> session" where
  "open_and_transfer env transfer local_size remote_size s =
     (case create_data_connection env s of
        (Inl e, s1) \<Rightarrow> (Inl e, s1)
      | (Inr sock, s1) \<Rightarrow>
          (case transfer sock local_size remote_size s1 of
             (Inl e, s2) \<Rightarrow> (Inl (FileTransferError ''transfer failed''), s2)
           | (Inr r, s2) \<Rightarrow> (Inr r, s2)))"

definition download ::
  "local_env \<Rightarrow> transfer_body \<Rightarrow> session \<Rightarrow> string \<Rightarrow> TransferMode option \<Rightarrow> bool \<Rightarrow>
   (exn + transfer_result) \<times> session" where
  "download env transfer s remote_path mode resume =
     (if \<not> logged_in s then (Inl (AuthenticationError ''not logged in''), s)
      else
        case set_transfer_mode s (chosen_mode env mode) of
             (Inl e, s1) \<Rightarrow> (Inl e, s1)
           | (Inr _, s1) \<Rightarrow>
               if \<not> dir_exists env \<and> makedirs_fails env then (Inl OSError, s1)
               else
                 (case (case size_cmd s1 remote_path of
                          (Inl e, s2) \<Rightarrow> if is_command_error e then (Inr 0, s2) else (Inl e, s2)
                        | (Inr n, s2) \<Rightarrow> (Inr n, s2)) of
                    (Inl e, s2) \<Rightarrow> (Inl e, s2)
                  | (Inr remote_size, s2) \<Rightarrow>
                      if resume \<and> file_exists env then
                        (let local_size = file_size env
                         in if local_size \<ge> remote_size then (Inr (True, remote_size, 0), s2)
                            else open_and_transfer env transfer local_size remote_size s2)
                      else open_and_transfer env transfer 0 remote_size s2))"

text \<open>
  The part of \<open>upload\<close> up to the data connection:
  \<^verbatim>\<open>
  if not self.logged_in:
      raise AuthenticationError(...)
  if not os.path.exists(local_path):
      raise FileNotFoundError(...)
  local_size = os.path.getsize(local_path)
  if mode is None:
      mode = TransferMode.BINARY if self.is_binary_file(local_path) else TransferMode.ASCII
  self.set_transfer_mode(mode)
  remote_size = 0
  if resume:
      try:
          remote_size = self.size(remote_path)
          if remote_size >= local_size:
              return True, local_size, 0
      except CommandError:
          remote_size = 0
  data_sock = self._create_data_connection()
  try:
      ...  (REST, APPE or STOR, the send loop, the final reply)
  except Exception as e:
      ...
      raise FileTransferError(...)
  \<close>
\<close>

definition upload ::
  "local_env \<Rightarrow> transfer_body \<Rightarrow> session \<Rightarrow> string \<Rightarrow> TransferMode option \<Rightarrow> bool \<Rightarrow>
   (exn + transfer_result) \<times> session" where
  "upload env transfer s remote_path mode resume =
     (if \<not> logged_in s then (Inl (AuthenticationError ''not logged in''), s)
      else if \<not> file_exists env then (Inl FileNotFoundError, s)
      else
        let local_size = file_size env
        in case set_transfer_mode s (chosen_mode env mode) of
             (Inl e, s1) \<Rightarrow> (Inl e, s1)
           | (Inr _, s1) \<Rightarrow>
               if resume then
                 (case size_cmd s1 remote_path of
                    (Inr remote_size, s2) \<Rightarrow>
                      if remote_size \<ge> local_size then (Inr (True, local_size, 0), s2)
                      else open_and_transfer env transfer local_size remote_size s2
                  | (Inl e, s2) \<Rightarrow>
                      if is_command_error e then open_and_transfer env transfer local_size 0 s2
                      else (Inl e, s2))
               else open_and_transfer env transfer local_size 0 s1)"


text \<open>A connected, logged-in session with nothing in flight, used in the examples.\<close>

definition idle_session :: session where
  "idle_session =
     \<lparr>has_cmd_socket = True, connected = True, logged_in = True,
      transfer_mode = BINARY, connection_mode = PASSIVE,
      last_response = None, last_response_code = None,
      inbox = [], send_faults = [], wire = [], log_records = [], data_channels = 0\<rparr>"

text \<open>
  A local machine where the file of the examples exists with 1024 bytes, and a transfer
  body that fails at once (the examples never reach it).
\<close>

definition demo_env :: local_env where
  "demo_env =
     \<lparr>is_binary_file = True, dir_exists = True, makedirs_fails = False, file_exists = True,
      file_size = 1024, local_ip = ''10.0.0.2'', local_port = 50000,
      data_connect_error = None\<rparr>"

definition no_transfer :: transfer_body where
  "no_transfer sock local_size remote_size s = (Inl ValueError, s)"

text \<open>The idle session about to receive the reply \<open>213 1024\<close> to a SIZE command.\<close>

definition size_reply_session :: session where
  "size_reply_session = idle_session\<lparr>inbox := [Data (''213 1024'' @ crlf)]\<rparr>"

section \<open>Connection pools\<close>

text \<open>
  Sessions are objects; a pool holds references to them.  A session is named by a
  number, and a newly constructed session gets the next unused one (\<open>id(client)\<close> of a
  live object differs from that of every other live object).
\<close>

subsection \<open>FTPClientPool (client/advanced\_client.py)\<close>

text \<open>
  \<open>_pool\<close> is a \<open>queue.Queue(maxsize=pool_size)\<close>, here the list of its items, oldest
  first; \<open>_clients_in_use\<close> is a dictionary keyed by \<open>id(client)\<close>, here the list of its
  keys.  A \<open>Queue\<close> with \<open>maxsize <= 0\<close> is unbounded.
\<close>

record client_pool =
  pool_size :: int
  idle_queue :: "nat list"
  clients_in_use :: "nat list"
  next_client :: nat

text \<open>\<open>Queue.put(item, block=False)\<close>: \<open>None\<close> stands for the exception \<open>Full\<close>.\<close>

definition queue_put_nowait :: "int \<Rightarrow> nat list \<Rightarrow> nat \<Rightarrow> nat list option" where
  "queue_put_nowait maxsize q c =
     (if maxsize > 0 \<and> int (length q) \<ge> maxsize then None else Some (q @ [c]))"

text \<open>
  \<open>_create_client\<close> connects and logs in; it returns the new client, or \<open>None\<close> when
  connecting or logging in fails.  Whether it succeeds is given by \<open>ok\<close>.
\<close>

definition create_client :: "bool \<Rightarrow> client_pool \<Rightarrow> nat option \<times> client_pool" where
  "create_client ok p =
     (if ok then (Some (next_client p), p\<lparr>next_client := Suc (next_client p)\<rparr>) else (None, p))"

text \<open>
  \<^verbatim>\<open>
  for _ in range(pool_size):
      client = self._create_client()
      if client:
          self._pool.put(client)
  \<close>
  \<open>oks\<close> gives the outcome of each creation (success when the list is exhausted).
\<close>

fun fill_pool :: "nat \<Rightarrow> bool list \<Rightarrow> client_pool \<Rightarrow> client_pool" where
  "fill_pool 0 oks p = p"
| "fill_pool (Suc n) oks p =
     (case create_client (case oks of [] \<Rightarrow> True | ok # _ \<Rightarrow> ok) p of
        (Some c, p1) \<Rightarrow> fill_pool n (tl oks) (p1\<lparr>idle_queue := idle_queue p1 @ [c]\<rparr>)
      | (None, p1) \<Rightarrow> fill_pool n (tl oks) p1)"

definition client_pool_init :: "int \<Rightarrow> bool list \<Rightarrow> client_pool" where
  "client_pool_init n oks =
     fill_pool (nat n) oks \<lparr>pool_size = n, idle_queue = [], clients_in_use = [], next_client = 0\<rparr>"

text \<open>
  \<^verbatim>\<open>
  client = None
  try:
      client = self._pool.get(block=False)
      if not self._check_client(client):
          client = self._create_client()
  except Exception:
      client = self._create_client()      # the pool is empty: create a new client
  if client:
      with self._lock:
          self._clients_in_use[id(client)] = client
      return client
  raise ConnectionError(...)
  \<close>
  \<open>check_ok\<close> is the result of the NOOP probe, \<open>create_ok\<close> that of \<open>_create_client\<close>.
\<close>

definition mark_in_use :: "nat \<Rightarrow> client_pool \<Rightarrow> client_pool" where
  "mark_in_use c p =
     (if c \<in> set (clients_in_use p) then p else p\<lparr>clients_in_use := clients_in_use p @ [c]\<rparr>)"

definition get_client :: "bool \<Rightarrow> bool \<Rightarrow> client_pool \<Rightarrow> (exn + nat) \<times> client_pool" where
  "get_client check_ok create_ok p =
     (case (case idle_queue p of
              [] \<Rightarrow> create_client create_ok p
            | c # rest \<Rightarrow>
                if check_ok then (Some c, p\<lparr>idle_queue := rest\<rparr>)
                else create_client create_ok (p\<lparr>idle_queue := rest\<rparr>)) of
        (Some c, p1) \<Rightarrow> (Inr c, mark_in_use c p1)
      | (None, p1) \<Rightarrow> (Inl (ConnectionError ''no client''), p1))"

text \<open>
  \<^verbatim>\<open>
  if client:
      client_id = id(client)
      with self._lock:
          if client_id in self._clients_in_use:
              self._clients_in_use.pop(client_id)
              if self._check_client(client):
                  try:
                      self._pool.put(client, block=False)
                      return
                  except Exception:
                      pass
      try:
          client.quit()
      except Exception:
          pass
  \<close>
\<close>

definition release_client :: "nat \<Rightarrow> bool \<Rightarrow> client_pool \<Rightarrow> client_pool" where
  "release_client c check_ok p =
     (if c \<in> set (clients_in_use p) then
        (let p1 = p\<lparr>clients_in_use := removeAll c (clients_in_use p)\<rparr>
         in if check_ok then
              (case queue_put_nowait (pool_size p1) (idle_queue p1) c of
                 Some q \<Rightarrow> p1\<lparr>idle_queue := q\<rparr>
               | None \<Rightarrow> p1)
            else p1)
      else p)"

datatype client_pool_event = GetClient bool bool | ReleaseClient nat bool

fun client_pool_step :: "client_pool_event \<Rightarrow> client_pool \<Rightarrow> client_pool" where
  "client_pool_step (GetClient check_ok create_ok) p = snd (get_client check_ok create_ok p)"
| "client_pool_step (ReleaseClient c check_ok) p = release_client c check_ok p"

definition client_pool_run :: "client_pool_event list \<Rightarrow> client_pool \<Rightarrow> client_pool" where
  "client_pool_run evs p = fold client_pool_step evs p"

subsection \<open>FTPConnectionPool (client/ftp\_client.py)\<close>

text \<open>
  \<open>pool\<close> is the list of idle \<open>(client, last_used_time)\<close> pairs and
  \<open>active_connections\<close> a counter.  The pool keeps no record of the clients it handed
  out; \<open>held\<close> is that record, kept beside the pool's own fields: the clients returned
  by \<open>get_connection\<close> and not yet passed to \<open>release_connection\<close>.
\<close>

record connection_pool =
  max_connections :: int
  pool :: "(nat \<times> int) list"
  active_connections :: int
  total_connections_created :: int
  total_connections_reused :: int
  total_connections_closed :: int
  connection_failures :: int
  next_connection :: nat
  held :: "nat list"

definition connection_pool_init :: "int \<Rightarrow> connection_pool" where
  "connection_pool_init n =
     \<lparr>max_connections = n, pool = [], active_connections = 0,
      total_connections_created = 0, total_connections_reused = 0,
      total_connections_closed = 0, connection_failures = 0,
      next_connection = 0, held = []\<rparr>"

text \<open>
  \<^verbatim>\<open>
  while self.pool:
      client, last_used_time = self.pool.pop()
      if client.verify_connection():
          self.active_connections += 1
          self.total_connections_reused += 1
          return client
      else:
          ... client.quit() ...
          self.total_connections_closed += 1
  \<close>
  \<open>list.pop()\<close> takes the last element; the loop is a recursion on the reversed list.
  \<open>valid c\<close> is the result of \<open>verify_connection\<close> on client \<open>c\<close>.  The result is the
  client found and the idle entries left (still reversed), with the number closed.
\<close>

fun pop_valid :: "(nat \<Rightarrow> bool) \<Rightarrow> (nat \<times> int) list \<Rightarrow> nat \<Rightarrow> nat option \<times> (nat \<times> int) list \<times> nat" where
  "pop_valid valid [] n_closed = (None, [], n_closed)"
| "pop_valid valid ((c, t) # rest) n_closed =
     (if valid c then (Some c, rest, n_closed) else pop_valid valid rest (Suc n_closed))"

text \<open>
  After the loop:
  \<^verbatim>\<open>
  if self.active_connections >= self.max_connections:
      return None
  try:
      client = FTPClient(...); client.connect(); ...
      self.active_connections += 1
      self.total_connections_created += 1
      return client
  except Exception as e:
      self.connection_failures += 1
      raise
  \<close>
\<close>

definition get_connection ::
  "(nat \<Rightarrow> bool) \<Rightarrow> bool \<Rightarrow> connection_pool \<Rightarrow> (exn + nat option) \<times> connection_pool" where
  "get_connection valid create_ok p =
     (case pop_valid valid (rev (pool p)) 0 of
        (Some c, rest, n_closed) \<Rightarrow>
          (Inr (Some c),
           p\<lparr>pool := rev rest,
             active_connections := active_connections p + 1,
             total_connections_reused := total_connections_reused p + 1,
             total_connections_closed := total_connections_closed p + int n_closed,
             held := held p @ [c]\<rparr>)
      | (None, rest, n_closed) \<Rightarrow>
          (let p1 = p\<lparr>pool := rev rest,
                       total_connections_closed := total_connections_closed p + int n_closed\<rparr>
           in if active_connections p1 \<ge> max_connections p1 then (Inr None, p1)
              else if create_ok then
                (Inr (Some (next_connection p1)),
                 p1\<lparr>active_connections := active_connections p1 + 1,
                    total_connections_created := total_connections_created p1 + 1,
                    next_connection := Suc (next_connection p1),
                    held := held p1 @ [next_connection p1]\<rparr>)
              else (Inl (ConnectionError ''connect failed''),
                    p1\<lparr>connection_failures := connection_failures p1 + 1\<rparr>)))"

text \<open>
  \<^verbatim>\<open>
  if not client or not client.connected:
      self.active_connections = max(0, self.active_connections - 1)
      return
  self.pool.append((client, time.time()))
  self.active_connections -= 1
  \<close>
\<close>

definition release_connection :: "nat \<Rightarrow> bool \<Rightarrow> int \<Rightarrow> connection_pool \<Rightarrow> connection_pool" where
  "release_connection c is_connected now p =
     (if \<not> is_connected
      then p\<lparr>active_connections := max 0 (active_connections p - 1), held := remove1 c (held p)\<rparr>
      else p\<lparr>pool := pool p @ [(c, now)],
             active_connections := active_connections p - 1,
             held := remove1 c (held p)\<rparr>)"

datatype connection_pool_event =
    GetConnection "nat \<Rightarrow> bool" bool
  | ReleaseConnection nat bool int

fun connection_pool_step :: "connection_pool_event \<Rightarrow> connection_pool \<Rightarrow> connection_pool" where
  "connection_pool_step (GetConnection valid create_ok) p = snd (get_connection valid create_ok p)"
| "connection_pool_step (ReleaseConnection c is_connected now) p = release_connection c is_connected now p"

definition connection_pool_run :: "connection_pool_event list \<Rightarrow> connection_pool \<Rightarrow> connection_pool" where
  "connection_pool_run evs p = fold connection_pool_step evs p"

text \<open>
  A sequence of checkouts and releases in which every release returns a client that is
  checked out at that moment.
\<close>

fun releases_held :: "connection_pool_event list \<Rightarrow> connection_pool \<Rightarrow> bool" where
  "releases_held [] p = True"
| "releases_held (ReleaseConnection c is_connected now # evs) p =
     (c \<in> set (held p) \<and> releases_held evs (release_connection c is_connected now p))"
| "releases_held (ev # evs) p = releases_held evs (connection_pool_step ev p)"

subsection \<open>Invariants of the pools\<close>

text \<open>
  \<open>connection_pool_inv\<close>: idle entries plus the active counter stay within
  \<open>max_connections\<close>, the counter is the number of clients checked out, no client is
  both idle and checked out or listed twice, and every client was created by the pool.
  \<open>client_pool_inv\<close>: no client is both idle and in use or listed twice, every client
  was created by the pool, and a bounded idle queue is within \<open>pool_size\<close>.
\<close>

definition connection_pool_inv :: "connection_pool \<Rightarrow> bool" where
  "connection_pool_inv p =
     (int (length (pool p)) + active_connections p \<le> max_connections p \<and>
      active_connections p = int (length (held p)) \<and>
      distinct (map fst (pool p) @ held p) \<and>
      (\<forall>c\<in>set (map fst (pool p) @ held p). c < next_connection p))"

definition client_pool_inv :: "client_pool \<Rightarrow> bool" where
  "client_pool_inv p =
     (distinct (idle_queue p @ clients_in_use p) \<and>
      (\<forall>c\<in>set (idle_queue p @ clients_in_use p). c < next_client p) \<and>
      (0 < pool_size p \<longrightarrow> int (length (idle_queue p)) \<le> pool_size p))"

text \<open>
  An example run on a pool of two connections: two checkouts create clients 0 and 1, a
  third finds the pool at its limit, client 0 is released, and the next checkout finds
  it dead and creates client 2.
\<close>

definition demo_connection_events :: "connection_pool_event list" where
  "demo_connection_events =
     [GetConnection (\<lambda>c. True) True, GetConnection (\<lambda>c. True) True,
      GetConnection (\<lambda>c. True) True, ReleaseConnection 0 True 10,
      GetConnection (\<lambda>c. False) True]"

text \<open>An example run on a client pool of size one: two checkouts in a row, a release.\<close>

definition demo_client_events :: "client_pool_event list" where
  "demo_client_events = [GetClient True True, GetClient True True, ReleaseClient 0 True]"

section \<open>Tasks (client/transfer\_queue.py, class TransferTask)\<close>

datatype TaskPriority = LOW | NORMAL | HIGH | URGENT

text \<open>The enumeration's values: \<open>priority.value\<close>.\<close>

fun priority_value :: "TaskPriority \<Rightarrow> int" where
  "priority_value LOW = 0"
| "priority_value NORMAL = 1"
| "priority_value HIGH = 2"
| "priority_value URGENT = 3"

datatype TaskStatus = PENDING | RUNNING | COMPLETED | FAILED | CANCELED | PAUSED | RETRYING

datatype TaskType = UPLOAD | DOWNLOAD | DELETE | RENAME | MKDIR | RMDIR | LIST

text \<open>
  Invocations of the three optional callbacks, in the order they happen.  The callbacks
  are the caller's code; they are taken not to assign to the task.
\<close>

datatype callback_event = ProgressCb int int | CompleteCb | ErrorCb

text \<open>
  The dataclass.  Timestamps (\<open>datetime\<close>) are integers (microseconds), \<open>progress\<close> is
  a Python float and is modelled by a rational number (the operations on it are one
  division, one multiplication by 100 and \<open>min\<close> with 100), a callback field records
  whether a callback is set, \<open>fired\<close> records the callback invocations, and \<open>result\<close>
  is the handler's payload.  \<open>args\<close> and \<open>kwargs\<close> are only read by the handlers and are
  left out.
\<close>

record TransferTask =
  task_id :: string
  task_type :: TaskType
  priority :: TaskPriority
  status :: TaskStatus
  created_time :: int
  start_time :: "int option"
  end_time :: "int option"
  progress :: rat
  error :: "exn option"
  result :: "string option"
  retry_count :: int
  max_retries :: int
  retry_delay :: int
  on_progress :: bool
  on_complete :: bool
  on_error :: bool
  fired :: "callback_event list"

text \<open>
  \<^verbatim>\<open>
  if total > 0:
      self.progress = min(100.0, (current / total) * 100)
  else:
      self.progress = 0
  if self.on_progress:
      self.on_progress(self, current, total, elapsed)
  \<close>
\<close>

definition update_progress :: "int \<Rightarrow> int \<Rightarrow> TransferTask \<Rightarrow> TransferTask" where
  "update_progress cur tot t =
     (let t1 = (if tot > 0
                then t\<lparr>progress := min 100 ((of_int cur / of_int tot) * 100)\<rparr>
                else t\<lparr>progress := 0\<rparr>)
      in if on_progress t1 then t1\<lparr>fired := fired t1 @ [ProgressCb cur tot]\<rparr> else t1)"

text \<open>The \<open>mark_*\<close> methods; \<open>now\<close> is the reading of \<open>datetime.now()\<close>.\<close>

definition mark_running :: "int \<Rightarrow> TransferTask \<Rightarrow> TransferTask" where
  "mark_running now t = t\<lparr>status := RUNNING, start_time := Some now\<rparr>"

definition mark_completed :: "int \<Rightarrow> string option \<Rightarrow> TransferTask \<Rightarrow> TransferTask" where
  "mark_completed now res t =
     (let t1 = t\<lparr>status := COMPLETED, end_time := Some now, result := res, progress := 100\<rparr>
      in if on_complete t1 then t1\<lparr>fired := fired t1 @ [CompleteCb]\<rparr> else t1)"

definition mark_failed :: "int \<Rightarrow> exn option \<Rightarrow> TransferTask \<Rightarrow> TransferTask" where
  "mark_failed now err t =
     (let t1 = t\<lparr>status := FAILED, end_time := Some now, error := err\<rparr>
      in if on_error t1 then t1\<lparr>fired := fired t1 @ [ErrorCb]\<rparr> else t1)"

definition mark_canceled :: "int \<Rightarrow> TransferTask \<Rightarrow> TransferTask" where
  "mark_canceled now t = t\<lparr>status := CANCELED, end_time := Some now\<rparr>"

definition mark_paused :: "TransferTask \<Rightarrow> TransferTask" where
  "mark_paused t = t\<lparr>status := PAUSED\<rparr>"

definition mark_retrying :: "TransferTask \<Rightarrow> TransferTask" where
  "mark_retrying t = t\<lparr>status := RETRYING, retry_count := retry_count t + 1\<rparr>"

definition can_retry :: "TransferTask \<Rightarrow> bool" where
  "can_retry t = (status t = FAILED \<and> retry_count t < max_retries t)"

text \<open>
  The task \<open>add_task\<close> constructs: the dataclass defaults for every field it does not
  pass, \<open>created_time\<close> set by \<open>__post_init__\<close>.
\<close>

definition new_task ::
  "string \<Rightarrow> TaskType \<Rightarrow> TaskPriority \<Rightarrow> int \<Rightarrow> int \<Rightarrow> int \<Rightarrow> bool \<Rightarrow> bool \<Rightarrow> bool \<Rightarrow> TransferTask" where
  "new_task tid ty prio now retries delay cb_progress cb_complete cb_error =
     \<lparr>task_id = tid, task_type = ty, priority = prio, status = PENDING,
      created_time = now, start_time = None, end_time = None, progress = 0,
      error = None, result = None, retry_count = 0, max_retries = retries,
      retry_delay = delay, on_progress = cb_progress, on_complete = cb_complete,
      on_error = cb_error, fired = []\<rparr>"

text \<open>A sequence of calls on one task, each with the clock reading it sees.\<close>

datatype task_call =
    UpdateProgress int int
  | MarkRunning int
  | MarkCompleted int "string option"
  | MarkFailed int "exn option"
  | MarkCanceled int

fun apply_call :: "task_call \<Rightarrow> TransferTask \<Rightarrow> TransferTask" where
  "apply_call (UpdateProgress cur tot) t = update_progress cur tot t"
| "apply_call (MarkRunning now) t = mark_running now t"
| "apply_call (MarkCompleted now res) t = mark_completed now res t"
| "apply_call (MarkFailed now err) t = mark_failed now err t"
| "apply_call (MarkCanceled now) t = mark_canceled now t"

definition run_calls :: "task_call list \<Rightarrow> TransferTask \<Rightarrow> TransferTask" where
  "run_calls calls t = fold apply_call calls t"

text \<open>Byte counts are not negative.\<close>

fun nonneg_counts :: "task_call \<Rightarrow> bool" where
  "nonneg_counts (UpdateProgress cur tot) = (0 \<le> cur \<and> 0 \<le> tot)"
| "nonneg_counts _ = True"

fun is_update_progress :: "task_call \<Rightarrow> bool" where
  "is_update_progress (UpdateProgress _ _) = True"
| "is_update_progress _ = False"

fun is_mark_completed :: "task_call \<Rightarrow> bool" where
  "is_mark_completed (MarkCompleted _ _) = True"
| "is_mark_completed _ = False"

text \<open>The calls made after the last \<open>mark_completed\<close> (all of them when there is none).\<close>

definition calls_since_completed :: "task_call list \<Rightarrow> task_call list" where
  "calls_since_completed calls = rev (takeWhile (\<lambda>c. \<not> is_mark_completed c) (rev calls))"

section \<open>The priority queue (queue.PriorityQueue over heapq)\<close>

text \<open>
  \<open>add_task\<close> puts the tuple \<open>(-task.priority.value, task.created_time, task)\<close> into a
  \<open>queue.PriorityQueue\<close>, whose \<open>put\<close> and \<open>get\<close> are \<open>heapq.heappush\<close> and
  \<open>heapq.heappop\<close> on a list.  An entry is such a tuple, with the task object named by
  its id.

  Python compares tuples component by component: the first components that differ
  decide.  When the priorities and the timestamps are equal the comparison reaches the
  task objects, and \<open>TransferTask\<close> (a dataclass without \<open>order=True\<close>) defines no \<open><\<close>:
  \<open>TypeError\<close>.  An entry compared with itself is not smaller.
\<close>

type_synonym entry = "int \<times> int \<times> string"

definition entry_key :: "entry \<Rightarrow> int \<times> int" where
  "entry_key e = (fst e, fst (snd e))"

definition entry_lt :: "entry \<Rightarrow> entry \<Rightarrow> exn + bool" where
  "entry_lt a b =
     (if fst a \<noteq> fst b then Inr (fst a < fst b)
      else if fst (snd a) \<noteq> fst (snd b) then Inr (fst (snd a) < fst (snd b))
      else if snd (snd a) = snd (snd b) then Inr False
      else Inl TypeError)"

text \<open>
  \<^verbatim>\<open>
  def _siftdown(heap, startpos, pos):
      newitem = heap[pos]
      while pos > startpos:
          parentpos = (pos - 1) >> 1
          parent = heap[parentpos]
          if newitem < parent:
              heap[pos] = parent
              pos = parentpos
              continue
          break
      heap[pos] = newitem
  \<close>
  The state of the list after a comparison has raised is not modelled: the exception is
  the whole result.
\<close>

function siftdown :: "entry list \<Rightarrow> nat \<Rightarrow> entry \<Rightarrow> nat \<Rightarrow> exn + entry list" where
  "siftdown heap startpos newitem pos =
     (if pos > startpos then
        (let parentpos = (pos - 1) div 2; parent = heap ! parentpos
         in case entry_lt newitem parent of
              Inl e \<Rightarrow> Inl e
            | Inr b \<Rightarrow>
                if b then siftdown (heap[pos := parent]) startpos newitem parentpos
                else Inr (heap[pos := newitem]))
      else Inr (heap[pos := newitem]))"
  by pat_completeness auto
termination
  by (relation "measure (\<lambda>(heap, startpos, newitem, pos). pos)") auto

text \<open>
  \<^verbatim>\<open>
  def _siftup(heap, pos):
      endpos = len(heap)
      startpos = pos
      newitem = heap[pos]
      childpos = 2*pos + 1
      while childpos < endpos:
          rightpos = childpos + 1
          if rightpos < endpos and not heap[childpos] < heap[rightpos]:
              childpos = rightpos
          heap[pos] = heap[childpos]
          pos = childpos
          childpos = 2*pos + 1
      heap[pos] = newitem
      _siftdown(heap, startpos, pos)
  \<close>
  \<open>smaller_child\<close> is the choice of \<open>childpos\<close> in the loop body, \<open>siftup_loop\<close> the
  loop: it returns the list and the position of the leaf reached.
\<close>

definition smaller_child :: "entry list \<Rightarrow> nat \<Rightarrow> exn + nat" where
  "smaller_child heap childpos =
     (let rightpos = childpos + 1
      in if rightpos < length heap then
           (case entry_lt (heap ! childpos) (heap ! rightpos) of
              Inl e \<Rightarrow> Inl e
            | Inr b \<Rightarrow> Inr (if \<not> b then rightpos else childpos))
         else Inr childpos)"

function siftup_loop :: "entry list \<Rightarrow> nat \<Rightarrow> exn + (entry list \<times> nat)" where
  "siftup_loop heap pos =
     (let childpos = 2 * pos + 1
      in if childpos < length heap then
           (case smaller_child heap childpos of
              Inl e \<Rightarrow> Inl e
            | Inr c \<Rightarrow> siftup_loop (heap[pos := heap ! c]) c)
         else Inr (heap, pos))"
  by pat_completeness auto
termination
proof (relation "measure (\<lambda>(heap, pos). length heap - pos)")
  show "wf (measure (\<lambda>(heap, pos). length heap - pos))" by simp
next
  fix heap :: "entry list" and pos childpos c
  assume "childpos = 2 * pos + 1" "childpos < length heap" "smaller_child heap childpos = Inr c"
  then have "pos < c \<and> c < length heap"
    by (auto simp: smaller_child_def Let_def split: if_splits sum.splits)
  then show "((heap[pos := heap ! c], c), (heap, pos)) \<in> measure (\<lambda>(heap, pos). length heap - pos)"
    by auto
qed

definition siftup :: "entry list \<Rightarrow> nat \<Rightarrow> exn + entry list" where
  "siftup heap pos =
     (let newitem = heap ! pos
      in case siftup_loop heap pos of
           Inl e \<Rightarrow> Inl e
         | Inr (heap1, leaf) \<Rightarrow> siftdown (heap1[leaf := newitem]) pos newitem leaf)"

text \<open>
  \<^verbatim>\<open>
  def heappush(heap, item):
      heap.append(item)
      _siftdown(heap, 0, len(heap)-1)

  def heappop(heap):
      lastelt = heap.pop()    # IndexError if heap is empty
      if heap:
          returnitem = heap[0]
          heap[0] = lastelt
          _siftup(heap, 0)
          return returnitem
      return lastelt
  \<close>
\<close>

definition heappush :: "entry list \<Rightarrow> entry \<Rightarrow> exn + entry list" where
  "heappush heap item = siftdown (heap @ [item]) 0 item (length heap)"

definition heappop :: "entry list \<Rightarrow> exn + (entry \<times> entry list)" where
  "heappop heap =
     (if heap = [] then Inl IndexError
      else
        let lastelt = last heap; heap1 = butlast heap
        in if heap1 \<noteq> [] then
             (case siftup (heap1[0 := lastelt]) 0 of
                Inl e \<Rightarrow> Inl e
              | Inr heap2 \<Rightarrow> Inr (heap1 ! 0, heap2))
           else Inr (lastelt, []))"

text \<open>The heap invariant of heapq: no item is smaller than its parent.\<close>

definition heap_ok :: "entry list \<Rightarrow> bool" where
  "heap_ok heap =
     (\<forall>i < length heap. 0 < i \<longrightarrow> entry_key (heap ! ((i - 1) div 2)) \<le> entry_key (heap ! i))"

text \<open>No two entries have the same priority and timestamp.\<close>

definition distinct_keys :: "entry list \<Rightarrow> bool" where
  "distinct_keys heap = distinct (map entry_key heap)"

text \<open>
  The state of the list inside the two loops, where position \<open>pos\<close> is a hole whose
  content does not count: every other item is not smaller than its parent, and the
  children of the hole are not smaller than the parent of the hole.  \<open>above_children\<close>:
  the item to be placed is not larger than the children of the hole.
\<close>

definition hole_ok :: "entry list \<Rightarrow> nat \<Rightarrow> bool" where
  "hole_ok heap pos =
     ((\<forall>i < length heap. 0 < i \<and> i \<noteq> pos \<and> (i - 1) div 2 \<noteq> pos \<longrightarrow>
          entry_key (heap ! ((i - 1) div 2)) \<le> entry_key (heap ! i)) \<and>
      (\<forall>c < length heap. 0 < c \<and> 0 < pos \<and> (c - 1) div 2 = pos \<longrightarrow>
          entry_key (heap ! ((pos - 1) div 2)) \<le> entry_key (heap ! c)))"

definition above_children :: "entry \<Rightarrow> entry list \<Rightarrow> nat \<Rightarrow> bool" where
  "above_children newitem heap pos =
     (\<forall>c < length heap. 0 < c \<and> (c - 1) div 2 = pos \<longrightarrow> entry_key newitem \<le> entry_key (heap ! c))"

text \<open>A queue in order: the heap invariant holds and no two entries share a key.\<close>

definition queue_valid :: "entry list \<Rightarrow> bool" where
  "queue_valid heap = (heap_ok heap \<and> distinct_keys heap)"

text \<open>
  Task \<open>a\<close> goes before task \<open>b\<close>: its priority ordinal is greater, or the ordinals are
  equal and it was created earlier.
\<close>

definition dispatched_before :: "TransferTask \<Rightarrow> TransferTask \<Rightarrow> bool" where
  "dispatched_before a b =
     (priority_value (priority a) > priority_value (priority b) \<or>
      (priority_value (priority a) = priority_value (priority b) \<and> created_time a < created_time b))"

section \<open>The transfer queue (client/transfer\_queue.py, class TransferQueue)\<close>

text \<open>
  Tasks are objects shared between the heap and the three dictionaries: \<open>tasks\<close> is the
  store of the task objects by id, the heap entries and the dictionaries (lists of
  keys, in insertion order) refer to it.  Every id in the heap or in a dictionary names
  a task of the store; the branches for a missing task are there to make the functions
  total.  \<open>handled\<close> lists the tasks a handler was invoked for (each handler takes a
  session from the pool first), \<open>slept\<close> the arguments of the retry thread's
  \<open>time.sleep\<close> calls.
\<close>

record TransferQueue =
  task_queue :: "entry list"
  tasks :: "string \<rightharpoonup> TransferTask"
  active_tasks :: "string list"
  completed_tasks :: "string list"
  failed_tasks :: "string list"
  task_id_counter :: nat
  handled :: "string list"
  slept :: "int list"

definition empty_queue :: TransferQueue where
  "empty_queue =
     \<lparr>task_queue = [], tasks = Map.empty, active_tasks = [], completed_tasks = [],
      failed_tasks = [], task_id_counter = 0, handled = [], slept = []\<rparr>"

text \<open>\<open>d[k] = v\<close> on the keys of a dictionary, and \<open>d.pop(k, None)\<close>.\<close>

definition dict_set :: "string \<Rightarrow> string list \<Rightarrow> string list" where
  "dict_set k ks = (if k \<in> set ks then ks else ks @ [k])"

definition dict_pop :: "string \<Rightarrow> string list \<Rightarrow> string list" where
  "dict_pop k ks = removeAll k ks"

definition task_entry :: "TransferTask \<Rightarrow> entry" where
  "task_entry t = (- priority_value (priority t), created_time t, task_id t)"

text \<open>
  \<^verbatim>\<open>
  task_id = self._get_next_task_id()          # f"task-{counter}" after counter += 1
  task = TransferTask(id=task_id, ..., priority=priority,
                      max_retries=kwargs.get('max_retries', 3),
                      retry_delay=kwargs.get('retry_delay', 5))
  self.task_queue.put((-task.priority.value, task.created_time, task))
  return task_id
  \<close>
  \<open>kw_retries\<close> and \<open>kw_delay\<close> are the two keyword arguments when given.
\<close>

definition add_task ::
  "TaskType \<Rightarrow> TaskPriority \<Rightarrow> int \<Rightarrow> int option \<Rightarrow> int option \<Rightarrow> bool \<Rightarrow> bool \<Rightarrow> bool \<Rightarrow>
   TransferQueue \<Rightarrow> exn + (string \<times> TransferQueue)" where
  "add_task ty prio now kw_retries kw_delay cb_progress cb_complete cb_error q =
     (let counter = Suc (task_id_counter q);
          tid = ''task-'' @ py_str (int counter);
          task = new_task tid ty prio now
                   (case kw_retries of None \<Rightarrow> 3 | Some n \<Rightarrow> n)
                   (case kw_delay of None \<Rightarrow> 5 | Some n \<Rightarrow> n)
                   cb_progress cb_complete cb_error
      in case heappush (task_queue q) (task_entry task) of
           Inl e \<Rightarrow> Inl e
         | Inr heap \<Rightarrow>
             Inr (tid, q\<lparr>task_id_counter := counter, tasks := (tasks q)(tid \<mapsto> task),
                         task_queue := heap\<rparr>))"

text \<open>
  One pass of the loop of \<open>_worker\<close>:
  \<^verbatim>\<open>
  try:
      _, _, task = self.task_queue.get(timeout=0.5)
  except queue.Empty:
      continue
  if task.status == TaskStatus.CANCELED:
      self.task_queue.task_done()
      continue
  with self._lock:
      task.mark_running()
      self.active_tasks[task.id] = task
  try:
      handler_method = self._get_task_handler(task.type)
      result = handler_method(task)
      with self._lock:
          task.mark_completed(result)
          self.completed_tasks[task.id] = task
          self.active_tasks.pop(task.id, None)
  except Exception as e:
      with self._lock:
          task.mark_failed(e)
          self.failed_tasks[task.id] = task
          self.active_tasks.pop(task.id, None)
  finally:
      self.task_queue.task_done()
  \<close>
  \<open>handler\<close> stands for looking up and running the handler on the task: it yields the
  progress reports the transfer makes (\<open>task.update_progress(current, total, ...)\<close>)
  and the handler's result or exception.  \<open>t_start\<close> and \<open>t_end\<close> are the clock
  readings of \<open>mark_running\<close> and of \<open>mark_completed\<close> or \<open>mark_failed\<close>.
\<close>

type_synonym handler = "TransferTask \<Rightarrow> (int \<times> int) list \<times> (exn + string option)"

definition report_progress :: "(int \<times> int) list \<Rightarrow> TransferTask \<Rightarrow> TransferTask" where
  "report_progress reports t = fold (\<lambda>(cur, tot). update_progress cur tot) reports t"

definition worker_step :: "handler \<Rightarrow> int \<Rightarrow> int \<Rightarrow> TransferQueue \<Rightarrow> exn + TransferQueue" where
  "worker_step h t_start t_end q =
     (if task_queue q = [] then Inr q
      else
        (case heappop (task_queue q) of
           Inl e \<Rightarrow> Inl e
         | Inr ((_, _, tid), heap) \<Rightarrow>
             (case tasks q tid of
                None \<Rightarrow> Inr (q\<lparr>task_queue := heap\<rparr>)
              | Some task \<Rightarrow>
                  if status task = CANCELED then Inr (q\<lparr>task_queue := heap\<rparr>)
                  else
                    let running = mark_running t_start task;
                        (reports, outcome) = h running;
                        worked = report_progress reports running;
                        q1 = q\<lparr>task_queue := heap, handled := handled q @ [tid]\<rparr>
                    in (case outcome of
                          Inr res \<Rightarrow>
                            Inr (q1\<lparr>tasks := (tasks q)(tid \<mapsto> mark_completed t_end res worked),
                                    completed_tasks := dict_set tid (completed_tasks q),
                                    active_tasks := dict_pop tid (dict_set tid (active_tasks q))\<rparr>)
                        | Inl e \<Rightarrow>
                            Inr (q1\<lparr>tasks := (tasks q)(tid \<mapsto> mark_failed t_end (Some e) worked),
                                    failed_tasks := dict_set tid (failed_tasks q),
                                    active_tasks := dict_pop tid (dict_set tid (active_tasks q))\<rparr>)))))"

text \<open>
  \<^verbatim>\<open>
  with self._lock:
      if task_id in self.active_tasks:
          return False
      if task_id in self.failed_tasks:
          task = self.failed_tasks.pop(task_id)
          task.mark_canceled()
          self.completed_tasks[task_id] = task
          return True
      if task_id in self.completed_tasks:
          return False
  # the task may still be in the queue ... mark it as canceled here and return True
  logger.info(...)
  return True
  \<close>
\<close>

definition cancel_task :: "string \<Rightarrow> int \<Rightarrow> TransferQueue \<Rightarrow> bool \<times> TransferQueue" where
  "cancel_task tid now q =
     (if tid \<in> set (active_tasks q) then (False, q)
      else if tid \<in> set (failed_tasks q) then
        (True,
         q\<lparr>failed_tasks := dict_pop tid (failed_tasks q),
           tasks := (case tasks q tid of
                       None \<Rightarrow> tasks q
                     | Some task \<Rightarrow> (tasks q)(tid \<mapsto> mark_canceled now task)),
           completed_tasks := dict_set tid (completed_tasks q)\<rparr>)
      else if tid \<in> set (completed_tasks q) then (False, q)
      else (True, q))"

text \<open>
  One pass of the loop of \<open>_retry_worker\<close>:
  \<^verbatim>\<open>
  time.sleep(5)
  retry_tasks = []
  with self._lock:
      for task_id, task in list(self.failed_tasks.items()):
          if task.can_retry():
              retry_tasks.append(task)
              self.failed_tasks.pop(task_id)
  for task in retry_tasks:
      task.mark_retrying()
      time.sleep(task.retry_delay)
      self.task_queue.put((-task.priority.value, task.created_time, task))
      self.task_added_event.set()
  \<close>
\<close>

definition retryable :: "TransferQueue \<Rightarrow> string \<Rightarrow> bool" where
  "retryable q tid = (case tasks q tid of None \<Rightarrow> False | Some task \<Rightarrow> can_retry task)"

fun requeue :: "string list \<Rightarrow> TransferQueue \<Rightarrow> exn + TransferQueue" where
  "requeue [] q = Inr q"
| "requeue (tid # tids) q =
     (case tasks q tid of
        None \<Rightarrow> requeue tids q
      | Some task \<Rightarrow>
          (let retrying = mark_retrying task
           in case heappush (task_queue q) (task_entry retrying) of
                Inl e \<Rightarrow> Inl e
              | Inr heap \<Rightarrow>
                  requeue tids
                    (q\<lparr>tasks := (tasks q)(tid \<mapsto> retrying),
                       slept := slept q @ [retry_delay retrying],
                       task_queue := heap\<rparr>)))"

definition retry_pass :: "TransferQueue \<Rightarrow> exn + TransferQueue" where
  "retry_pass q =
     (let retry_tasks = filter (retryable q) (failed_tasks q)
      in requeue retry_tasks
           (q\<lparr>slept := slept q @ [5],
              failed_tasks := filter (\<lambda>tid. \<not> retryable q tid) (failed_tasks q)\<rparr>))"

text \<open>The backoff the specification describes, for comparison: \<open>retry_delay * 2 ^ retry_count\<close>.\<close>

definition spec_backoff :: "TransferTask \<Rightarrow> int" where
  "spec_backoff t = retry_delay t * 2 ^ nat (retry_count t)"

text \<open>A handler that fails with a timeout, and one that succeeds, without progress reports.\<close>

definition failing_handler :: handler where
  "failing_handler t = ([], Inl (TimeoutError ''timed out''))"

definition ok_handler :: handler where
  "ok_handler t = ([], Inr None)"


section \<open>Properties of the codec\<close>



subsection \<open>The data-channel address\<close>

declare digits_of.simps [simp del]
































section \<open>Properties of the session\<close>


lemma utf8_char_ne [simp]: "utf8_char c \<noteq> []"
  by (simp add: utf8_char_def Let_def)





subsection \<open>Reading a reply\<close>












subsection \<open>Resumed transfers\<close>

lemma send_command_data_channels: "data_channels (snd (send_command s c)) = data_channels s"
  by (simp add: send_command_def Let_def split: list.splits option.splits)

lemma read_response_data_channels: "data_channels (snd (read_response s)) = data_channels s"
  by (simp add: read_response_def split: read_outcome.splits sum.splits prod.splits option.splits)

lemma set_transfer_mode_data_channels:
  "data_channels (snd (set_transfer_mode s m)) = data_channels s"
proof -
  have a: "\<And>c. data_channels (snd (read_response (snd (send_command s c)))) = data_channels s"
    by (simp add: read_response_data_channels send_command_data_channels)
  show ?thesis
    unfolding set_transfer_mode_def
    using a[of "''TYPE '' @ mode_value m"] send_command_data_channels[of s "''TYPE '' @ mode_value m"]
    by (auto split: prod.splits sum.splits)
qed

lemma size_cmd_data_channels:
  "data_channels (snd (size_cmd s p)) = data_channels s"
proof -
  have a: "data_channels (snd (read_response (snd (send_command s (''SIZE '' @ p))))) = data_channels s"
    by (simp add: read_response_data_channels send_command_data_channels)
  show ?thesis
    unfolding size_cmd_def
    using a send_command_data_channels[of s "''SIZE '' @ p"]
    by (auto split: prod.splits sum.splits option.splits list.splits)
qed

text \<open>
  C7.  On a logged-in session, once the transfer mode is set and SIZE has returned the
  remote size: \<open>download\<close> with \<open>resume\<close> and an existing local file at least as large
  as the remote size returns success with the remote size and elapsed time 0, and
  \<open>upload\<close> with \<open>resume\<close> and a remote size at least the local file's size returns
  success with the local size and elapsed time 0.  In both cases the session is the one
  left by the SIZE exchange: no data connection was opened and the transfer body was not
  run.
\<close>

theorem resume_skip_rules:
  "(logged_in s \<and> resume \<and> file_exists env \<and>
    fst (set_transfer_mode s (chosen_mode env mode)) = Inr () \<and>
    (dir_exists env \<or> \<not> makedirs_fails env) \<and>
    fst (size_cmd (snd (set_transfer_mode s (chosen_mode env mode))) remote_path) = Inr remote_size \<and>
    file_size env \<ge> remote_size
    \<longrightarrow> download env transfer s remote_path mode resume =
          (Inr (True, remote_size, 0),
           snd (size_cmd (snd (set_transfer_mode s (chosen_mode env mode))) remote_path)) \<and>
        data_channels (snd (download env transfer s remote_path mode resume)) = data_channels s) \<and>
   (logged_in s \<and> resume \<and> file_exists env \<and>
    fst (set_transfer_mode s (chosen_mode env mode)) = Inr () \<and>
    fst (size_cmd (snd (set_transfer_mode s (chosen_mode env mode))) remote_path) = Inr remote_size \<and>
    remote_size \<ge> file_size env
    \<longrightarrow> upload env transfer s remote_path mode resume =
          (Inr (True, file_size env, 0),
           snd (size_cmd (snd (set_transfer_mode s (chosen_mode env mode))) remote_path)) \<and>
        data_channels (snd (upload env transfer s remote_path mode resume)) = data_channels s)"
proof (intro conjI impI)
  let ?s1 = "snd (set_transfer_mode s (chosen_mode env mode))"
  let ?s2 = "snd (size_cmd ?s1 remote_path)"
  have dc: "data_channels ?s2 = data_channels s"
    by (simp add: size_cmd_data_channels set_transfer_mode_data_channels)
  {
    assume h: "logged_in s \<and> resume \<and> file_exists env \<and>
      fst (set_transfer_mode s (chosen_mode env mode)) = Inr () \<and>
      (dir_exists env \<or> \<not> makedirs_fails env) \<and>
      fst (size_cmd ?s1 remote_path) = Inr remote_size \<and> file_size env \<ge> remote_size"
    then obtain s1 where m: "set_transfer_mode s (chosen_mode env mode) = (Inr (), s1)"
      by (cases "set_transfer_mode s (chosen_mode env mode)") auto
    with h obtain s2 where z: "size_cmd s1 remote_path = (Inr remote_size, s2)"
      by (cases "size_cmd s1 remote_path") auto
    from h show d: "download env transfer s remote_path mode resume = (Inr (True, remote_size, 0), ?s2)"
      unfolding download_def by (auto simp: m z Let_def)
    show "data_channels (snd (download env transfer s remote_path mode resume)) = data_channels s"
      unfolding d using dc by simp
  }
  {
    assume h: "logged_in s \<and> resume \<and> file_exists env \<and>
      fst (set_transfer_mode s (chosen_mode env mode)) = Inr () \<and>
      fst (size_cmd ?s1 remote_path) = Inr remote_size \<and> remote_size \<ge> file_size env"
    then obtain s1 where m: "set_transfer_mode s (chosen_mode env mode) = (Inr (), s1)"
      by (cases "set_transfer_mode s (chosen_mode env mode)") auto
    with h obtain s2 where z: "size_cmd s1 remote_path = (Inr remote_size, s2)"
      by (cases "size_cmd s1 remote_path") auto
    from h show u: "upload env transfer s remote_path mode resume = (Inr (True, file_size env, 0), ?s2)"
      unfolding upload_def by (auto simp: m z Let_def)
    show "data_channels (snd (upload env transfer s remote_path mode resume)) = data_channels s"
      unfolding u using dc by simp
  }
qed


theorem resume_skip_rules_witness:
  "logged_in size_reply_session \<and> file_exists demo_env \<and>
   fst (set_transfer_mode size_reply_session (chosen_mode demo_env (Some BINARY))) = Inr () \<and>
   fst (size_cmd (snd (set_transfer_mode size_reply_session (chosen_mode demo_env (Some BINARY))))
          ''file.bin'') = Inr 1024 \<and>
   file_size demo_env = 1024 \<and>
   fst (download demo_env no_transfer size_reply_session ''file.bin'' (Some BINARY) True)
     = Inr (True, 1024, 0) \<and>
   data_channels (snd (download demo_env no_transfer size_reply_session ''file.bin'' (Some BINARY) True))
     = data_channels size_reply_session \<and>
   fst (upload demo_env no_transfer size_reply_session ''file.bin'' (Some BINARY) True)
     = Inr (True, 1024, 0) \<and>
   data_channels (snd (upload demo_env no_transfer size_reply_session ''file.bin'' (Some BINARY) True))
     = data_channels size_reply_session"
proof -
  have e0: "logged_in size_reply_session" "file_exists demo_env" "file_size demo_env = 1024"
    "dir_exists demo_env"
    by (simp_all add: size_reply_session_def idle_session_def demo_env_def)
  have e1: "fst (set_transfer_mode size_reply_session (chosen_mode demo_env (Some BINARY))) = Inr ()"
    by code_simp
  have e2: "fst (size_cmd (snd (set_transfer_mode size_reply_session (chosen_mode demo_env (Some BINARY))))
          ''file.bin'') = Inr 1024"
    by code_simp
  show ?thesis
    using resume_skip_rules [of size_reply_session True demo_env "Some BINARY" "''file.bin''" 1024
        no_transfer] e0 e1 e2
    by (simp add: size_cmd_data_channels set_transfer_mode_data_channels)
qed

section \<open>Properties of the pools\<close>

lemma pop_valid_Some:
  "pop_valid valid xs k = (Some c, rest, k') \<Longrightarrow> \<exists>pre t. xs = pre @ (c, t) # rest"
proof (induction xs arbitrary: k)
  case Nil then show ?case by simp
next
  case (Cons x xs)
  obtain d t where x: "x = (d, t)" by (cases x)
  show ?case
  proof (cases "valid d")
    case True
    with Cons.prems x have "d = c" "rest = xs" by simp_all
    with x have "x # xs = [] @ (c, t) # rest" by simp
    then show ?thesis by blast
  next
    case False
    with Cons.prems x have "pop_valid valid xs (Suc k) = (Some c, rest, k')" by simp
    from Cons.IH[OF this] obtain pre t' where "xs = pre @ (c, t') # rest" by blast
    then have "x # xs = (x # pre) @ (c, t') # rest" by simp
    then show ?thesis by blast
  qed
qed

lemma pop_valid_None: "pop_valid valid xs k = (None, rest, k') \<Longrightarrow> rest = []"
  by (induction xs arbitrary: k) (auto split: if_splits)

lemma get_connection_inv:
  assumes "connection_pool_inv p"
  shows "connection_pool_inv (snd (get_connection valid create_ok p))"
proof (cases "pop_valid valid (rev (pool p)) 0")
  case (fields r rest k')
  show ?thesis
  proof (cases r)
    case None
    with fields have rest: "rest = []" using pop_valid_None by blast
    with fields None assms show ?thesis
      by (auto simp: get_connection_def connection_pool_inv_def Let_def less_Suc_eq)
  next
    case (Some c)
    with fields obtain pre t where pre: "rev (pool p) = pre @ (c, t) # rest"
      using pop_valid_Some by blast
    then have pl: "pool p = rev rest @ (c, t) # rev pre"
      by (metis rev_append rev.simps(2) rev_rev_ident append_assoc append_Cons append_Nil)
    from fields Some have g: "snd (get_connection valid create_ok p) =
        p\<lparr>pool := rev rest,
          active_connections := active_connections p + 1,
          total_connections_reused := total_connections_reused p + 1,
          total_connections_closed := total_connections_closed p + int k',
          held := held p @ [c]\<rparr>"
      by (simp add: get_connection_def)
    from assms show ?thesis
      unfolding g connection_pool_inv_def pl by auto
  qed
qed

lemma release_connection_inv:
  assumes "connection_pool_inv p" "c \<in> set (held p)"
  shows "connection_pool_inv (release_connection c is_connected now p)"
proof -
  from assms(2) have pos: "length (held p) \<ge> 1"
    by (cases "held p") simp_all
  from assms(2) have "length (remove1 c (held p)) = length (held p) - 1"
    by (simp add: length_remove1)
  with pos have len: "int (length (remove1 c (held p))) = int (length (held p)) - 1"
    "int (length (held p)) \<ge> 1"
    by arith+
  from assms have d: "distinct (held p)" "c \<notin> set (map fst (pool p))"
    by (auto simp: connection_pool_inv_def)
  then have nc: "c \<notin> set (remove1 c (held p))" by simp
  have sub: "set (remove1 c (held p)) \<subseteq> set (held p)" by (rule set_remove1_subset)
  show ?thesis
  proof (cases is_connected)
    case True
    with assms len d nc sub show ?thesis
      by (auto simp: release_connection_def connection_pool_inv_def dest: notin_set_remove1)
  next
    case False
    with assms len d nc sub show ?thesis
      by (auto simp: release_connection_def connection_pool_inv_def dest: notin_set_remove1)
  qed
qed

lemma connection_pool_run_inv:
  "connection_pool_inv p \<Longrightarrow> releases_held evs p \<Longrightarrow> connection_pool_inv (connection_pool_run evs p)"
  unfolding connection_pool_run_def
proof (induction evs arbitrary: p)
  case Nil then show ?case by simp
next
  case (Cons ev evs)
  show ?case
  proof (cases ev)
    case (GetConnection valid create_ok)
    with Cons.prems have "connection_pool_inv (connection_pool_step ev p)"
      "releases_held evs (connection_pool_step ev p)"
      by (simp_all add: get_connection_inv)
    with Cons.IH show ?thesis by simp
  next
    case (ReleaseConnection c is_connected now)
    with Cons.prems have "connection_pool_inv (connection_pool_step ev p)"
      "releases_held evs (connection_pool_step ev p)"
      by (simp_all add: release_connection_inv)
    with Cons.IH show ?thesis by simp
  qed
qed

lemma connection_pool_init_inv: "0 \<le> n \<Longrightarrow> connection_pool_inv (connection_pool_init n)"
  by (simp add: connection_pool_inv_def connection_pool_init_def)


lemma create_client_inv:
  assumes "client_pool_inv p" "create_client ok p = (r, p1)"
  shows "client_pool_inv p1 \<and> idle_queue p1 = idle_queue p \<and> clients_in_use p1 = clients_in_use p \<and>
         pool_size p1 = pool_size p \<and>
         (\<forall>c. r = Some c \<longrightarrow> c \<notin> set (idle_queue p @ clients_in_use p) \<and> c < next_client p1)"
  using assms by (auto simp: create_client_def client_pool_inv_def less_Suc_eq split: if_splits)

lemma idle_tail_inv:
  assumes "client_pool_inv p" "idle_queue p = c # rest"
  shows "client_pool_inv (p\<lparr>idle_queue := rest\<rparr>)"
  using assms by (auto simp: client_pool_inv_def)

lemma mark_in_use_inv:
  assumes "client_pool_inv p" "c \<notin> set (idle_queue p)" "c < next_client p"
  shows "client_pool_inv (mark_in_use c p)"
  using assms by (auto simp: client_pool_inv_def mark_in_use_def)

lemma get_client_inv:
  assumes "client_pool_inv p"
  shows "client_pool_inv (snd (get_client check_ok create_ok p))"
proof (cases "idle_queue p")
  case Nil
  obtain r p1 where c: "create_client create_ok p = (r, p1)" by (cases "create_client create_ok p")
  from create_client_inv[OF assms c] Nil c show ?thesis
    by (cases r) (auto simp: get_client_def intro: mark_in_use_inv)
next
  case (Cons c rest)
  let ?p0 = "p\<lparr>idle_queue := rest\<rparr>"
  have inv0: "client_pool_inv ?p0" by (rule idle_tail_inv[OF assms Cons])
  show ?thesis
  proof (cases check_ok)
    case True
    from assms Cons have "c \<notin> set rest" "c < next_client p"
      by (auto simp: client_pool_inv_def)
    then have "client_pool_inv (mark_in_use c ?p0)"
      by (intro mark_in_use_inv inv0) simp_all
    with True Cons show ?thesis by (simp add: get_client_def)
  next
    case False
    obtain r p1 where cr: "create_client create_ok ?p0 = (r, p1)"
      by (cases "create_client create_ok ?p0")
    from create_client_inv[OF inv0 cr] False Cons cr show ?thesis
      by (cases r) (auto simp: get_client_def intro: mark_in_use_inv)
  qed
qed

lemma release_client_inv:
  assumes "client_pool_inv p"
  shows "client_pool_inv (release_client c check_ok p)"
  using assms
  by (auto simp: release_client_def client_pool_inv_def queue_put_nowait_def Let_def
      distinct_removeAll split: option.splits if_splits)

lemma client_pool_run_inv:
  "client_pool_inv p \<Longrightarrow> client_pool_inv (client_pool_run evs p)"
  unfolding client_pool_run_def
proof (induction evs arbitrary: p)
  case Nil then show ?case by simp
next
  case (Cons ev evs)
  then show ?case
    by (cases ev) (simp_all add: get_client_inv release_client_inv)
qed

lemma client_pool_run_size: "pool_size (client_pool_run evs p) = pool_size p"
  unfolding client_pool_run_def
proof (induction evs arbitrary: p)
  case Nil then show ?case by simp
next
  case (Cons ev evs)
  have "pool_size (client_pool_step ev p) = pool_size p"
    by (cases ev)
       (auto simp: get_client_def release_client_def create_client_def mark_in_use_def
          queue_put_nowait_def Let_def split: list.splits option.splits if_splits)
  with Cons show ?case by simp
qed

lemma fill_pool_inv:
  assumes "distinct (idle_queue p @ clients_in_use p)"
    "\<forall>c\<in>set (idle_queue p @ clients_in_use p). c < next_client p"
  shows "distinct (idle_queue (fill_pool k oks p) @ clients_in_use (fill_pool k oks p)) \<and>
    (\<forall>c\<in>set (idle_queue (fill_pool k oks p) @ clients_in_use (fill_pool k oks p)).
        c < next_client (fill_pool k oks p)) \<and>
    length (idle_queue (fill_pool k oks p)) \<le> length (idle_queue p) + k \<and>
    pool_size (fill_pool k oks p) = pool_size p"
  using assms
proof (induction k arbitrary: oks p)
  case 0
  then show ?case by simp
next
  case (Suc k)
  let ?ok = "case oks of [] \<Rightarrow> True | ok # _ \<Rightarrow> ok"
  show ?case
  proof (cases ?ok)
    case True
    let ?p1 = "p\<lparr>next_client := Suc (next_client p), idle_queue := idle_queue p @ [next_client p]\<rparr>"
    from True have f: "fill_pool (Suc k) oks p = fill_pool k (tl oks) ?p1"
      by (simp add: create_client_def)
    from Suc.prems have "distinct (idle_queue ?p1 @ clients_in_use ?p1)"
      "\<forall>c\<in>set (idle_queue ?p1 @ clients_in_use ?p1). c < next_client ?p1"
      by (auto simp: less_Suc_eq)
    from Suc.IH[OF this, of "tl oks"] show ?thesis unfolding f by simp
  next
    case False
    then have f: "fill_pool (Suc k) oks p = fill_pool k (tl oks) p"
      by (simp add: create_client_def)
    from Suc.IH[OF Suc.prems, of "tl oks"] show ?thesis unfolding f by simp
  qed
qed

lemma client_pool_init_inv: "client_pool_inv (client_pool_init n oks)"
proof -
  let ?p0 = "\<lparr>pool_size = n, idle_queue = [], clients_in_use = [], next_client = 0\<rparr>"
  have "distinct (idle_queue ?p0 @ clients_in_use ?p0)"
    "\<forall>c\<in>set (idle_queue ?p0 @ clients_in_use ?p0). c < next_client ?p0"
    by simp_all
  from fill_pool_inv[OF this, of "nat n" oks] show ?thesis
    unfolding client_pool_inv_def client_pool_init_def by auto
qed


text \<open>
  C2 (as amended).  At every point of every sequence of checkouts and releases:
  in \<open>FTPConnectionPool\<close>, when every release returns a client that is checked out,
  the number of idle sessions plus the active counter is at most \<open>max_connections\<close>,
  the counter is the number of sessions checked out, and no session is both idle and
  checked out; in \<open>FTPClientPool\<close> the number of idle sessions is at most \<open>pool_size\<close>
  (for a positive \<open>pool_size\<close>) and no session is both idle and in use.  The number of
  sessions in use of \<open>FTPClientPool\<close> is not bounded.
\<close>

theorem pool_bounds:
  "(0 \<le> n \<and> releases_held evs (connection_pool_init n) \<longrightarrow>
      int (length (pool (connection_pool_run evs (connection_pool_init n)))) +
        active_connections (connection_pool_run evs (connection_pool_init n)) \<le> n \<and>
      active_connections (connection_pool_run evs (connection_pool_init n)) =
        int (length (held (connection_pool_run evs (connection_pool_init n)))) \<and>
      set (map fst (pool (connection_pool_run evs (connection_pool_init n)))) \<inter>
        set (held (connection_pool_run evs (connection_pool_init n))) = {}) \<and>
   (0 < m \<longrightarrow>
      int (length (idle_queue (client_pool_run cevs (client_pool_init m oks)))) \<le> m) \<and>
   set (idle_queue (client_pool_run cevs (client_pool_init m oks))) \<inter>
     set (clients_in_use (client_pool_run cevs (client_pool_init m oks))) = {}"
proof (intro conjI impI)
  let ?c = "client_pool_run cevs (client_pool_init m oks)"
  have ci: "client_pool_inv ?c"
    by (rule client_pool_run_inv[OF client_pool_init_inv])
  have sz: "pool_size ?c = m"
    using fill_pool_inv[of "\<lparr>pool_size = m, idle_queue = [], clients_in_use = [], next_client = 0\<rparr>" "nat m" oks]
    by (simp add: client_pool_run_size client_pool_init_def)
  from ci show "set (idle_queue ?c) \<inter> set (clients_in_use ?c) = {}"
    by (auto simp: client_pool_inv_def)
  {
    assume "0 < m"
    with ci sz show "int (length (idle_queue ?c)) \<le> m"
      by (simp add: client_pool_inv_def)
  }
  let ?p = "connection_pool_run evs (connection_pool_init n)"
  assume "0 \<le> n \<and> releases_held evs (connection_pool_init n)"
  then have pi: "connection_pool_inv ?p"
    by (intro connection_pool_run_inv connection_pool_init_inv) simp_all
  have mx: "max_connections ?p = n"
  proof -
    have "\<And>p. max_connections (connection_pool_run evs p) = max_connections p"
      unfolding connection_pool_run_def
    proof (induction evs)
      case Nil show ?case by simp
    next
      case (Cons ev evs)
      have "max_connections (connection_pool_step ev p) = max_connections p"
        by (cases ev)
           (auto simp: get_connection_def release_connection_def Let_def split: prod.splits option.splits)
      with Cons show ?case by simp
    qed
    then show ?thesis by (simp add: connection_pool_init_def)
  qed
  from pi mx show "int (length (pool ?p)) + active_connections ?p \<le> n"
    by (simp add: connection_pool_inv_def)
  from pi show "active_connections ?p = int (length (held ?p))"
    by (simp add: connection_pool_inv_def)
  from pi show "set (map fst (pool ?p)) \<inter> set (held ?p) = {}"
    by (auto simp: connection_pool_inv_def)
qed


theorem pool_bounds_witness:
  "(0::int) \<le> 2 \<and> releases_held demo_connection_events (connection_pool_init 2) \<and>
   length (pool (connection_pool_run demo_connection_events (connection_pool_init 2))) = 0 \<and>
   active_connections (connection_pool_run demo_connection_events (connection_pool_init 2)) = 2 \<and>
   held (connection_pool_run demo_connection_events (connection_pool_init 2)) = [1, 2] \<and>
   (0::int) < 1 \<and>
   idle_queue (client_pool_run demo_client_events (client_pool_init 1 [])) = [0] \<and>
   clients_in_use (client_pool_run demo_client_events (client_pool_init 1 [])) = [1]"
proof -
  have r: "releases_held demo_connection_events (connection_pool_init 2)"
    by code_simp
  have p: "pool (connection_pool_run demo_connection_events (connection_pool_init 2)) = []"
    "held (connection_pool_run demo_connection_events (connection_pool_init 2)) = [1, 2]"
    by code_simp+
  have c: "idle_queue (client_pool_run demo_client_events (client_pool_init 1 [])) = [0]"
    "clients_in_use (client_pool_run demo_client_events (client_pool_init 1 [])) = [1]"
    by code_simp+
  show ?thesis
    using pool_bounds [of 2 demo_connection_events 1 demo_client_events "[]"] r p c
    by simp
qed

text \<open>
  C2 as stated fails for \<open>FTPClientPool\<close>: \<open>get_client\<close> creates a new client when
  the idle queue is empty, whatever the number in use.  With \<open>pool_size = 1\<close>, two
  checkouts in a row leave two sessions in use.
\<close>

theorem client_pool_exceeds_counterexample:
  "pool_size (client_pool_run [GetClient True True, GetClient True True] (client_pool_init 1 [])) = 1 \<and>
   idle_queue (client_pool_run [GetClient True True, GetClient True True] (client_pool_init 1 [])) = [] \<and>
   clients_in_use (client_pool_run [GetClient True True, GetClient True True] (client_pool_init 1 []))
     = [0, 1]"
  by code_simp

section \<open>Properties of tasks\<close>

lemma update_progress_bounds:
  "0 \<le> cur \<Longrightarrow> 0 \<le> tot \<Longrightarrow>
   0 \<le> progress (update_progress cur tot t) \<and> progress (update_progress cur tot t) \<le> 100"
  by (simp add: update_progress_def Let_def)

lemma status_update_progress: "status (update_progress c n t) = status t"
  by (simp add: update_progress_def Let_def)

lemma mark_status:
  "status (mark_running now t) = RUNNING"
  "status (mark_completed now r t) = COMPLETED"
  "status (mark_failed now e t) = FAILED"
  "status (mark_canceled now t) = CANCELED"
  by (simp_all add: mark_running_def mark_completed_def mark_failed_def mark_canceled_def Let_def)

lemma mark_progress:
  "progress (mark_running now t) = progress t"
  "progress (mark_completed now r t) = 100"
  "progress (mark_failed now e t) = progress t"
  "progress (mark_canceled now t) = progress t"
  by (simp_all add: mark_running_def mark_completed_def mark_failed_def mark_canceled_def Let_def)

lemma apply_call_bounds:
  "nonneg_counts c \<Longrightarrow> 0 \<le> progress t \<and> progress t \<le> 100 \<Longrightarrow>
   0 \<le> progress (apply_call c t) \<and> progress (apply_call c t) \<le> 100"
  by (cases c) (simp_all add: update_progress_bounds mark_progress)

lemma run_calls_bounds:
  "\<forall>c\<in>set calls. nonneg_counts c \<Longrightarrow> 0 \<le> progress t \<and> progress t \<le> 100 \<Longrightarrow>
   0 \<le> progress (run_calls calls t) \<and> progress (run_calls calls t) \<le> 100"
  unfolding run_calls_def
proof (induction calls arbitrary: t)
  case Nil then show ?case by simp
next
  case (Cons c cs)
  then show ?case using apply_call_bounds[of c t] by simp
qed

lemma run_calls_completed:
  "status (run_calls calls t) = COMPLETED \<Longrightarrow> status t \<noteq> COMPLETED \<Longrightarrow>
   \<forall>c\<in>set (calls_since_completed calls). \<not> is_update_progress c \<Longrightarrow>
   progress (run_calls calls t) = 100"
proof (induction calls rule: rev_induct)
  case Nil then show ?case by (simp add: run_calls_def)
next
  case (snoc c cs)
  then show ?case
    by (cases c)
       (simp_all add: run_calls_def calls_since_completed_def mark_status mark_progress)
qed

text \<open>
  C6 (as amended).  After any sequence of \<open>update_progress\<close>, \<open>mark_running\<close>,
  \<open>mark_completed\<close>, \<open>mark_failed\<close> and \<open>mark_canceled\<close> calls with non-negative
  byte counts on a task created by \<open>add_task\<close>, the progress lies between 0 and 100;
  and when the status is COMPLETED and no \<open>update_progress\<close> call was made after the
  last \<open>mark_completed\<close>, the progress is 100.
\<close>

theorem progress_bounded:
  "(\<forall>c\<in>set calls. nonneg_counts c) \<longrightarrow>
     0 \<le> progress (run_calls calls (new_task tid ty prio now retries delay cbp cbc cbe)) \<and>
     progress (run_calls calls (new_task tid ty prio now retries delay cbp cbc cbe)) \<le> 100 \<and>
     (status (run_calls calls (new_task tid ty prio now retries delay cbp cbc cbe)) = COMPLETED \<and>
      (\<forall>c\<in>set (calls_since_completed calls). \<not> is_update_progress c) \<longrightarrow>
        progress (run_calls calls (new_task tid ty prio now retries delay cbp cbc cbe)) = 100)"
proof (intro impI conjI)
  let ?t = "new_task tid ty prio now retries delay cbp cbc cbe"
  have init: "0 \<le> progress ?t \<and> progress ?t \<le> 100" "status ?t \<noteq> COMPLETED"
    by (simp_all add: new_task_def)
  assume nn: "\<forall>c\<in>set calls. nonneg_counts c"
  from run_calls_bounds[OF nn init(1)]
  show "0 \<le> progress (run_calls calls ?t)" "progress (run_calls calls ?t) \<le> 100" by simp_all
  assume "status (run_calls calls ?t) = COMPLETED \<and>
      (\<forall>c\<in>set (calls_since_completed calls). \<not> is_update_progress c)"
  then show "progress (run_calls calls ?t) = 100"
    using run_calls_completed[OF _ init(2)] by blast
qed

theorem progress_bounded_witness:
  "list_all nonneg_counts
      [MarkRunning 1, UpdateProgress 512 1024, UpdateProgress 2048 1024, MarkCompleted 2 None] \<and>
   progress (run_calls [MarkRunning 1, UpdateProgress 512 1024]
      (new_task ''task-1'' UPLOAD NORMAL 0 3 5 False False False)) = 50 \<and>
   status (run_calls [MarkRunning 1, UpdateProgress 512 1024, UpdateProgress 2048 1024, MarkCompleted 2 None]
      (new_task ''task-1'' UPLOAD NORMAL 0 3 5 False False False)) = COMPLETED \<and>
   progress (run_calls [MarkRunning 1, UpdateProgress 512 1024, UpdateProgress 2048 1024, MarkCompleted 2 None]
      (new_task ''task-1'' UPLOAD NORMAL 0 3 5 False False False)) = 100"
  using progress_bounded [of "[MarkRunning 1, UpdateProgress 512 1024, UpdateProgress 2048 1024, MarkCompleted 2 None]"
      "''task-1''" UPLOAD NORMAL 0 3 5 False False False]
  by (simp add: run_calls_def new_task_def update_progress_def mark_running_def
      mark_completed_def Let_def)

text \<open>
  C6 as stated fails: an \<open>update_progress\<close> call that follows \<open>mark_completed\<close> leaves
  the status COMPLETED and sets the progress to the ratio it is given.
\<close>

theorem completed_progress_counterexample:
  "status (run_calls [MarkRunning 1, MarkCompleted 2 None, UpdateProgress 512 1024]
      (new_task ''task-1'' UPLOAD NORMAL 0 3 5 False False False)) = COMPLETED \<and>
   progress (run_calls [MarkRunning 1, MarkCompleted 2 None, UpdateProgress 512 1024]
      (new_task ''task-1'' UPLOAD NORMAL 0 3 5 False False False)) = 50"
  by (simp add: run_calls_def new_task_def update_progress_def mark_running_def
      mark_completed_def Let_def)

end
